theory Spec2Isabelle
  imports Complex_Main "HOL-Library.Char_ord" "HOL-Library.List_Lexorder"
begin

section \<open>GoAniGiffy: frames to an animated GIF\<close>

text \<open>
  The repository holds two copies of the program: \<^verbatim>\<open>goanigiffy.go\<close>, whose \<^verbatim>\<open>main\<close>
  calls the helpers \<^verbatim>\<open>CropImage\<close>, \<^verbatim>\<open>ScaleImage\<close>, \<^verbatim>\<open>RotateImage\<close> and \<^verbatim>\<open>FlipImage\<close>,
  and a second file whose \<^verbatim>\<open>main\<close> has the same steps written inline. Both are embedded
  here: \<open>main1\<close> is the first, \<open>main2\<close> the second.

  The program calls Go's standard library and the \<^verbatim>\<open>imaging\<close> package. Their rectangle
  arithmetic (\<^verbatim>\<open>image.Rect\<close>, \<^verbatim>\<open>Rectangle.Intersect\<close>, \<^verbatim>\<open>imaging.Crop\<close>) decides what a
  crop returns and is written out below after the libraries' documented behaviour.
  Everything else the program calls (globbing, decoding, resampling, the lossless
  rotations and flips, the GIF codec, file creation) is a field of the record \<open>env\<close>,
  so every theorem holds for whatever those collaborators do.

  Go's \<^verbatim>\<open>int\<close> is 64 bits wide on the platforms the program targets; the sums the
  program computes from its flags are wrapped with \<open>wrap64\<close>. The messages printed
  only under \<^verbatim>\<open>-verbose\<close> change neither data nor control flow and are left out;
  the warnings and fatal messages are kept as values of type \<open>message\<close>.
\<close>

subsection \<open>Rectangles (Go's \<^verbatim>\<open>image.Rectangle\<close>)\<close>

text \<open>
  A rectangle holds the points with \<open>MinX \<le> x < MaxX\<close> and \<open>MinY \<le> y < MaxY\<close>: the
  maximum corner is excluded. The two \<^verbatim>\<open>Point\<close> fields are flattened into four
  integers.
\<close>

record Rectangle =
  MinX :: int
  MinY :: int
  MaxX :: int
  MaxY :: int

definition ZR :: Rectangle where
  "ZR = \<lparr>MinX = 0, MinY = 0, MaxX = 0, MaxY = 0\<rparr>"

definition Rect :: "int \<Rightarrow> int \<Rightarrow> int \<Rightarrow> int \<Rightarrow> Rectangle" where
  "Rect x0 y0 x1 y1 =
     \<lparr>MinX = (if x0 > x1 then x1 else x0), MinY = (if y0 > y1 then y1 else y0),
      MaxX = (if x0 > x1 then x0 else x1), MaxY = (if y0 > y1 then y0 else y1)\<rparr>"

definition Dx :: "Rectangle \<Rightarrow> int" where
  "Dx r = MaxX r - MinX r"

definition Dy :: "Rectangle \<Rightarrow> int" where
  "Dy r = MaxY r - MinY r"

definition Empty :: "Rectangle \<Rightarrow> bool" where
  "Empty r = (MinX r \<ge> MaxX r \<or> MinY r \<ge> MaxY r)"

definition Intersect :: "Rectangle \<Rightarrow> Rectangle \<Rightarrow> Rectangle" where
  "Intersect r s =
     (let r' = \<lparr>MinX = (if MinX r < MinX s then MinX s else MinX r),
                MinY = (if MinY r < MinY s then MinY s else MinY r),
                MaxX = (if MaxX r > MaxX s then MaxX s else MaxX r),
                MaxY = (if MaxY r > MaxY s then MaxY s else MaxY r)\<rparr>
      in if Empty r' then ZR else r')"

subsection \<open>Images\<close>

type_synonym colour = nat

text \<open>An \<^verbatim>\<open>image.Image\<close>: its bounds and the colour at each point.\<close>

record Img =
  Bounds :: Rectangle
  At :: "int \<Rightarrow> int \<Rightarrow> colour"

text \<open>The image \<^verbatim>\<open>&image.NRGBA{}\<close>: no pixels.\<close>

definition empty_Img :: Img where
  "empty_Img = \<lparr>Bounds = ZR, At = (\<lambda>x y. 0)\<rparr>"

text \<open>
  \<^verbatim>\<open>imaging.Crop(img, rect)\<close> cuts out the part of \<open>rect\<close> that lies inside the image and
  returns it as a new image whose bounds start at the origin; a rectangle that misses
  the image gives the empty image.
\<close>

definition imaging_Crop :: "Img \<Rightarrow> Rectangle \<Rightarrow> Img" where
  "imaging_Crop img rect =
     (let r = Intersect rect (Bounds img)
      in if Empty r then empty_Img
         else \<lparr>Bounds = Rect 0 0 (Dx r) (Dy r),
               At = (\<lambda>x y. if 0 \<le> x \<and> x < Dx r \<and> 0 \<le> y \<and> y < Dy r
                             then At img (MinX r + x) (MinY r + y) else 0)\<rparr>)"

subsection \<open>Machine arithmetic\<close>

definition wrap64 :: "int \<Rightarrow> int" where
  "wrap64 n = (n + 2 ^ 63) mod 2 ^ 64 - 2 ^ 63"

text \<open>
  \<^verbatim>\<open>int(float64(n) * scale)\<close>: the conversion to \<^verbatim>\<open>int\<close> drops the fraction. A finite
  scale factor is modelled by the rational it denotes and the product is exact. This
  agrees with the code where the float64 product is exact and fits an \<^verbatim>\<open>int\<close>, as it
  is for the scale factors 1 and 2 used below. The rounding of an inexact float64
  product, the conversion of a product beyond the 64-bit range, and the scale values
  \<^verbatim>\<open>NaN\<close> and \<^verbatim>\<open>Inf\<close> are not modelled; no theorem below depends on \<open>go_int\<close> at any other
  factor.
\<close>

definition go_int :: "rat \<Rightarrow> int" where
  "go_int x = (if x < 0 then \<lceil>x\<rceil> else \<lfloor>x\<rfloor>)"

subsection \<open>The helper \<^verbatim>\<open>CropImage\<close>\<close>

definition CropImage :: "int \<Rightarrow> int \<Rightarrow> int \<Rightarrow> int \<Rightarrow> Img \<Rightarrow> Img" where
  "CropImage cropleft croptop cropwidth cropheight img =
     (if \<not> (cropwidth = -1 \<and> cropheight = -1 \<and> cropleft = 0 \<and> croptop = 0) then
        let cropwidth' = (if cropwidth = -1 then Dx (Bounds img) else cropwidth);
            cropheight' = (if cropheight = -1 then Dy (Bounds img) else cropheight)
        in imaging_Crop img
             (Rect cropleft croptop (wrap64 (cropleft + cropwidth' - 1))
                (wrap64 (croptop + cropheight' - 1)))
      else img)"

subsection \<open>The collaborators\<close>

type_synonym error = string
type_synonym bytes = "nat list"

text \<open>
  An \<^verbatim>\<open>image.Paletted\<close>, and the \<^verbatim>\<open>gif.GIF\<close> that is handed to \<^verbatim>\<open>gif.EncodeAll\<close>. The
  field \<^verbatim>\<open>Rect\<close> of the first is \<open>PRect\<close> and the field \<^verbatim>\<open>Image\<close> of the second is
  \<open>Image_list\<close>, as the plain names are taken.
\<close>

record paletted =
  Pix :: "nat list"
  Stride :: int
  PRect :: Rectangle
  Palette :: "colour list"

record GIF =
  Image_list :: "paletted list"
  Delay :: "int list"
  LoopCount :: int

record env =
  filepath_Glob :: "string \<Rightarrow> error + string list"
  imaging_Open :: "string \<Rightarrow> error + Img"
  imaging_Resize :: "Img \<Rightarrow> int \<Rightarrow> int \<Rightarrow> Img"
  imaging_Rotate90 :: "Img \<Rightarrow> Img"
  imaging_Rotate180 :: "Img \<Rightarrow> Img"
  imaging_Rotate270 :: "Img \<Rightarrow> Img"
  imaging_FlipH :: "Img \<Rightarrow> Img"
  imaging_FlipV :: "Img \<Rightarrow> Img"
  gif_Encode :: "Img \<Rightarrow> error + bytes"
  gif_Decode :: "bytes \<Rightarrow> error + paletted"
  os_Create :: "string \<Rightarrow> error option"
  gif_writer :: "GIF \<Rightarrow> bytes \<times> error option"
  files :: "string \<rightharpoonup> bytes"

text \<open>
  \<^verbatim>\<open>gif.EncodeAll\<close> refuses an animation without frames, and one whose delays do not
  match its frames, before it writes anything. Otherwise \<open>gif_writer\<close> gives the bytes
  that reached the file and the error, if any.
\<close>

definition gif_EncodeAll :: "env \<Rightarrow> GIF \<Rightarrow> bytes \<times> error option" where
  "gif_EncodeAll env g =
     (if length (Image_list g) = 0 then ([], Some ''gif: must provide at least one image'')
      else if length (Image_list g) \<noteq> length (Delay g)
        then ([], Some ''gif: mismatched image and delay lengths'')
      else gif_writer env g)"

text \<open>
  The header that \<^verbatim>\<open>gif.EncodeAll\<close> writes carries the loop count (in the application
  extension \<^verbatim>\<open>NETSCAPE2.0\<close>) only for an animation of more than one frame whose loop
  count is not negative; otherwise the stream has no loop count at all.
\<close>

definition loop_extension :: "GIF \<Rightarrow> int option" where
  "loop_extension g =
     (if length (Image_list g) > 1 \<and> LoopCount g \<ge> 0 then Some (LoopCount g) else None)"

text \<open>
  The loop count in the serialized animation: that of the header when \<^verbatim>\<open>gif.EncodeAll\<close>
  returns without error. When it returns an error the animation is refused or the
  stream is cut short, and no serialized animation exists.
\<close>

definition gif_loop_written :: "env \<Rightarrow> GIF \<Rightarrow> int option" where
  "gif_loop_written env g =
     (case snd (gif_EncodeAll env g) of
        Some err \<Rightarrow> None
      | None \<Rightarrow> loop_extension g)"

subsection \<open>The helpers \<^verbatim>\<open>ScaleImage\<close>, \<^verbatim>\<open>RotateImage\<close>, \<^verbatim>\<open>FlipImage\<close>\<close>

definition ScaleImage :: "env \<Rightarrow> rat \<Rightarrow> Img \<Rightarrow> Img" where
  "ScaleImage env scale img =
     (if scale \<noteq> 1 then
        let newwidth = go_int (of_int (Dx (Bounds img)) * scale);
            newheight = go_int (of_int (Dy (Bounds img)) * scale)
        in imaging_Resize env img newwidth newheight
      else img)"

definition RotateImage :: "env \<Rightarrow> int \<Rightarrow> Img \<Rightarrow> Img" where
  "RotateImage env rot img =
     (if rot = 90 then imaging_Rotate90 env img
      else if rot = 180 then imaging_Rotate180 env img
      else if rot = 270 then imaging_Rotate270 env img
      else img)"

definition FlipImage :: "env \<Rightarrow> string \<Rightarrow> Img \<Rightarrow> Img" where
  "FlipImage env flip img =
     (if flip = ''horizontal'' then imaging_FlipH env img
      else if flip = ''vertical'' then imaging_FlipV env img
      else img)"

subsection \<open>Flags, messages and the outcome of a run\<close>

text \<open>
  The flags, one field per \<^verbatim>\<open>flag\<close> declaration of \<^verbatim>\<open>main\<close>; the flag \<^verbatim>\<open>rotate\<close> is
  \<open>rotate_flag\<close>, as the plain name is taken.
\<close>

record config =
  srcglob :: string
  destname :: string
  cropleft :: int
  croptop :: int
  cropwidth :: int
  cropheight :: int
  delay :: int
  verbose :: bool
  scale :: rat
  rotate_flag :: int
  flip :: string

datatype message =
    BadRotate
  | BadFlip
  | GlobError string error
  | NoSources string
  | SkipRead string error
  | SkipEncode string error
  | SkipDecode string error
  | CreateError string error
  | EncodeAllError error

text \<open>
  What a run leaves behind: the exit status, the messages in order, the files, the
  file names that were handed to \<^verbatim>\<open>imaging.Open\<close>, the animation that was handed
  to \<^verbatim>\<open>gif.EncodeAll\<close> (if the run got that far), and the loop count in the animation
  that was serialized into the destination file (if one was serialized and carries a
  loop count).
\<close>

record outcome =
  status :: int
  logged :: "message list"
  disk :: "string \<rightharpoonup> bytes"
  opened :: "string list"
  encoded :: "GIF option"
  loop_written :: "int option"

definition fatal_exit :: "env \<Rightarrow> message \<Rightarrow> outcome" where
  "fatal_exit env m =
     \<lparr>status = 1, logged = [m], disk = files env, opened = [], encoded = None,
      loop_written = None\<rparr>"

subsection \<open>After the loop: delays, destination file, serialization\<close>

text \<open>\<^verbatim>\<open>delays := make([]int, n)\<close>, then every slot is set to the delay flag.\<close>

definition make_delays :: "nat \<Rightarrow> int \<Rightarrow> int list" where
  "make_delays n d = fold (\<lambda>j delays. delays[j := d]) [0..<n] (replicate n 0)"

text \<open>The two copies end with the same lines, embedded once.\<close>

definition finish :: "env \<Rightarrow> config \<Rightarrow> string list \<Rightarrow> paletted list \<Rightarrow> message list \<Rightarrow> outcome" where
  "finish env cfg srcfilenames frames lg =
     (let delays = make_delays (length frames) (delay cfg)
      in case os_Create env (destname cfg) of
           Some err \<Rightarrow>
             \<lparr>status = 1, logged = lg @ [CreateError (destname cfg) err], disk = files env,
              opened = srcfilenames, encoded = None, loop_written = None\<rparr>
         | None \<Rightarrow>
             (let g = \<lparr>Image_list = frames, Delay = delays, LoopCount = 0\<rparr>
              in case gif_EncodeAll env g of
                   (written, res) \<Rightarrow>
                     \<lparr>status = 0,
                      logged = lg @ (case res of None \<Rightarrow> [] | Some err \<Rightarrow> [EncodeAllError err]),
                      disk = (files env)(destname cfg \<mapsto> written),
                      opened = srcfilenames, encoded = Some g,
                      loop_written = gif_loop_written env g\<rparr>))"

subsection \<open>The first copy: \<^verbatim>\<open>main\<close> with helpers\<close>

text \<open>The chain of the four helpers, lines 186 to 189.\<close>

definition transform1 :: "env \<Rightarrow> config \<Rightarrow> Img \<Rightarrow> Img" where
  "transform1 env cfg img =
     (let img1 = CropImage (cropleft cfg) (croptop cfg) (cropwidth cfg) (cropheight cfg) img;
          img2 = ScaleImage env (scale cfg) img1;
          img3 = RotateImage env (rotate_flag cfg) img2;
          img4 = FlipImage env (flip cfg) img3
      in img4)"

text \<open>The round trip through the GIF codec that turns an image into a paletted frame.\<close>

definition quantize :: "env \<Rightarrow> string \<Rightarrow> Img \<Rightarrow> message + paletted" where
  "quantize env filename img =
     (case gif_Encode env img of
        Inl err \<Rightarrow> Inl (SkipEncode filename err)
      | Inr buf \<Rightarrow>
          (case gif_Decode env buf of
             Inl err \<Rightarrow> Inl (SkipDecode filename err)
           | Inr tmpimg \<Rightarrow> Inr tmpimg))"

text \<open>One pass of the loop body: a frame, or the warning with which the file is skipped.\<close>

definition frame1 :: "env \<Rightarrow> config \<Rightarrow> string \<Rightarrow> message + paletted" where
  "frame1 env cfg filename =
     (case imaging_Open env filename of
        Inl err \<Rightarrow> Inl (SkipRead filename err)
      | Inr img \<Rightarrow> quantize env filename (transform1 env cfg img))"

fun loop1 :: "env \<Rightarrow> config \<Rightarrow> string list \<Rightarrow> paletted list \<Rightarrow> message list
    \<Rightarrow> paletted list \<times> message list" where
  "loop1 env cfg [] frames lg = (frames, lg)"
| "loop1 env cfg (filename # rest) frames lg =
     (case frame1 env cfg filename of
        Inl m \<Rightarrow> loop1 env cfg rest frames (lg @ [m])
      | Inr tmpimg \<Rightarrow> loop1 env cfg rest (frames @ [tmpimg]) lg)"

definition main1 :: "env \<Rightarrow> config \<Rightarrow> outcome" where
  "main1 env cfg =
     (if \<not> (rotate_flag cfg = 0 \<or> rotate_flag cfg = 90 \<or> rotate_flag cfg = 180
             \<or> rotate_flag cfg = 270) then fatal_exit env BadRotate
      else if \<not> (flip cfg = ''none'' \<or> flip cfg = ''horizontal'' \<or> flip cfg = ''vertical'')
        then fatal_exit env BadFlip
      else case filepath_Glob env (srcglob cfg) of
             Inl err \<Rightarrow> fatal_exit env (GlobError (srcglob cfg) err)
           | Inr srcfilenames \<Rightarrow>
               if length srcfilenames = 0 then fatal_exit env (NoSources (srcglob cfg))
               else (case loop1 env cfg (sort srcfilenames) [] [] of
                       (frames, lg) \<Rightarrow> finish env cfg (sort srcfilenames) frames lg))"

subsection \<open>The second copy: \<^verbatim>\<open>main\<close> with the steps inline\<close>

text \<open>
  The flags are read and written through pointers here, so the loop body takes the
  flags and returns them: the crop step stores the resolved width and height.
\<close>

definition body2 :: "env \<Rightarrow> config \<Rightarrow> string \<Rightarrow> config \<times> (message + paletted)" where
  "body2 env cfg filename =
     (case imaging_Open env filename of
        Inl err \<Rightarrow> (cfg, Inl (SkipRead filename err))
      | Inr img \<Rightarrow>
          (let (cfg2, img1) =
                 (if \<not> (cropwidth cfg = -1 \<and> cropheight cfg = -1 \<and> cropleft cfg = 0
                         \<and> croptop cfg = 0) then
                    let cfg1 = (if cropwidth cfg = -1
                                then cfg\<lparr>cropwidth := Dx (Bounds img)\<rparr> else cfg);
                        cfg2 = (if cropheight cfg1 = -1
                                then cfg1\<lparr>cropheight := Dy (Bounds img)\<rparr> else cfg1)
                    in (cfg2, imaging_Crop img
                                (Rect (cropleft cfg2) (croptop cfg2)
                                   (wrap64 (cropleft cfg2 + cropwidth cfg2 - 1))
                                   (wrap64 (croptop cfg2 + cropheight cfg2 - 1))))
                  else (cfg, img));
               img2 = (if scale cfg2 \<noteq> 1 then
                         let newwidth = go_int (of_int (Dx (Bounds img1)) * scale cfg2);
                             newheight = go_int (of_int (Dy (Bounds img1)) * scale cfg2)
                         in imaging_Resize env img1 newwidth newheight
                       else img1);
               img3 = (if rotate_flag cfg2 = 90 then imaging_Rotate90 env img2
                       else if rotate_flag cfg2 = 180 then imaging_Rotate180 env img2
                       else if rotate_flag cfg2 = 270 then imaging_Rotate270 env img2
                       else img2);
               img4 = (if flip cfg2 = ''horizontal'' then imaging_FlipH env img3
                       else if flip cfg2 = ''vertical'' then imaging_FlipV env img3
                       else img3)
           in (cfg2, quantize env filename img4)))"

fun loop2 :: "env \<Rightarrow> config \<Rightarrow> string list \<Rightarrow> paletted list \<Rightarrow> message list
    \<Rightarrow> config \<times> paletted list \<times> message list" where
  "loop2 env cfg [] frames lg = (cfg, frames, lg)"
| "loop2 env cfg (filename # rest) frames lg =
     (case body2 env cfg filename of
        (cfg', Inl m) \<Rightarrow> loop2 env cfg' rest frames (lg @ [m])
      | (cfg', Inr tmpimg) \<Rightarrow> loop2 env cfg' rest (frames @ [tmpimg]) lg)"

definition main2 :: "env \<Rightarrow> config \<Rightarrow> outcome" where
  "main2 env cfg =
     (if \<not> (rotate_flag cfg = 0 \<or> rotate_flag cfg = 90 \<or> rotate_flag cfg = 180
             \<or> rotate_flag cfg = 270) then fatal_exit env BadRotate
      else if \<not> (flip cfg = ''none'' \<or> flip cfg = ''horizontal'' \<or> flip cfg = ''vertical'')
        then fatal_exit env BadFlip
      else case filepath_Glob env (srcglob cfg) of
             Inl err \<Rightarrow> fatal_exit env (GlobError (srcglob cfg) err)
           | Inr srcfilenames \<Rightarrow>
               (case loop2 env cfg (sort srcfilenames) [] [] of
                  (cfg', frames, lg) \<Rightarrow> finish env cfg' (sort srcfilenames) frames lg))"

section \<open>Concrete runs\<close>

text \<open>
  Stand-ins for the collaborators, used where a theorem is applied to a concrete run:
  solid images, a nearest-neighbour resize, a codec that keeps only a frame's width and
  height, and a directory in which \<^verbatim>\<open>a.jpg\<close> is 2 by 2, \<^verbatim>\<open>b.jpg\<close> is 4 by 4 and
  nothing else can be decoded.
\<close>

definition solid :: "int \<Rightarrow> int \<Rightarrow> Img" where
  "solid w h = \<lparr>Bounds = Rect 0 0 w h, At = (\<lambda>x y. 7)\<rparr>"

definition test_Resize :: "Img \<Rightarrow> int \<Rightarrow> int \<Rightarrow> Img" where
  "test_Resize img w h =
     (if w \<le> 0 \<or> h \<le> 0 \<or> Empty (Bounds img) then empty_Img
      else \<lparr>Bounds = Rect 0 0 w h,
            At = (\<lambda>x y. At img (MinX (Bounds img) + x * Dx (Bounds img) div w)
                             (MinY (Bounds img) + y * Dy (Bounds img) div h))\<rparr>)"

definition test_Encode :: "Img \<Rightarrow> error + bytes" where
  "test_Encode img = Inr [nat (Dx (Bounds img)), nat (Dy (Bounds img))]"

definition test_Decode :: "bytes \<Rightarrow> error + paletted" where
  "test_Decode buf =
     (case buf of
        [w, h] \<Rightarrow> Inr \<lparr>Pix = [], Stride = int w, PRect = Rect 0 0 (int w) (int h), Palette = []\<rparr>
      | _ \<Rightarrow> Inl ''gif: cannot decode'')"

definition test_Open :: "string \<Rightarrow> error + Img" where
  "test_Open filename =
     (if filename = ''a.jpg'' then Inr (solid 2 2)
      else if filename = ''b.jpg'' then Inr (solid 4 4)
      else Inl ''image: unknown format'')"

definition test_writer :: "GIF \<Rightarrow> bytes \<times> error option" where
  "test_writer g = (map (\<lambda>p. nat (Dx (PRect p))) (Image_list g), None)"

definition test_env :: "string list \<Rightarrow> env" where
  "test_env names =
     \<lparr>filepath_Glob = (\<lambda>pattern. Inr names), imaging_Open = test_Open,
      imaging_Resize = test_Resize, imaging_Rotate90 = (\<lambda>img. img),
      imaging_Rotate180 = (\<lambda>img. img), imaging_Rotate270 = (\<lambda>img. img),
      imaging_FlipH = (\<lambda>img. img), imaging_FlipV = (\<lambda>img. img),
      gif_Encode = test_Encode, gif_Decode = test_Decode, os_Create = (\<lambda>name. None),
      gif_writer = test_writer, files = Map.empty\<rparr>"

text \<open>The flags at the defaults the program declares.\<close>

definition default_flags :: config where
  "default_flags =
     \<lparr>srcglob = ''*.jpg'', destname = ''movie.gif'', cropleft = 0, croptop = 0,
      cropwidth = -1, cropheight = -1, delay = 3, verbose = False, scale = 1,
      rotate_flag = 0, flip = ''none''\<rparr>"

text \<open>A frame as the stand-in codec returns it.\<close>

definition test_frame :: "nat \<Rightarrow> nat \<Rightarrow> paletted" where
  "test_frame w h = \<lparr>Pix = [], Stride = int w, PRect = Rect 0 0 (int w) (int h), Palette = []\<rparr>"

section \<open>Properties\<close>

subsection \<open>Auxiliary facts\<close>

lemmas geom_defs = Rect_def Dx_def Dy_def Empty_def Intersect_def ZR_def wrap64_def Let_def

lemmas run_defs =
  main1_def main2_def finish_def fatal_exit_def frame1_def body2_def quantize_def transform1_def
  CropImage_def ScaleImage_def RotateImage_def FlipImage_def imaging_Crop_def gif_EncodeAll_def
  Rect_def Dx_def Dy_def Empty_def Intersect_def ZR_def empty_Img_def wrap64_def go_int_def

lemmas test_defs =
  test_env_def test_Open_def test_Encode_def test_Decode_def test_Resize_def test_writer_def
  test_frame_def solid_def default_flags_def

lemma fold_update_upt:
  "k \<le> length xs \<Longrightarrow> fold (\<lambda>j ds. ds[j := d]) [0..<k] xs = replicate k d @ drop k xs"
proof (induction k)
  case 0
  then show ?case by simp
next
  case (Suc k)
  then have "fold (\<lambda>j ds. ds[j := d]) [0..<Suc k] xs = (replicate k d @ drop k xs)[k := d]"
    by simp
  also have "\<dots> = replicate k d @ (drop k xs)[0 := d]"
    by (simp add: list_update_append)
  also have "(drop k xs)[0 := d] = d # drop (Suc k) xs"
    using Suc.prems by (cases "drop k xs") (auto simp: drop_Suc drop_tl[symmetric] Cons_nth_drop_Suc[symmetric])
  finally show ?case by (simp add: replicate_append_same)
qed

lemma make_delays_replicate: "make_delays n d = replicate n d"
  by (simp add: make_delays_def fold_update_upt)

lemma loop1_collects:
  "loop1 env cfg fs frames lg =
     (frames @ [p. Inr p \<leftarrow> map (frame1 env cfg) fs],
      lg @ [m. Inl m \<leftarrow> map (frame1 env cfg) fs])"
  by (induction fs arbitrary: frames lg) (auto split: sum.splits)

lemma survivors_and_skips:
  "length [p. Inr p \<leftarrow> rs] + length [m. Inl m \<leftarrow> rs] = length rs"
  by (induction rs) (auto split: sum.splits)

lemma finish_created:
  "os_Create env (destname cfg) = None \<Longrightarrow>
   finish env cfg fs frames lg =
     \<lparr>status = 0,
      logged = lg @ (case snd (gif_EncodeAll env
                 \<lparr>Image_list = frames, Delay = replicate (length frames) (delay cfg), LoopCount = 0\<rparr>)
               of None \<Rightarrow> [] | Some err \<Rightarrow> [EncodeAllError err]),
      disk = (files env)(destname cfg \<mapsto> fst (gif_EncodeAll env
                 \<lparr>Image_list = frames, Delay = replicate (length frames) (delay cfg), LoopCount = 0\<rparr>)),
      opened = fs,
      encoded = Some \<lparr>Image_list = frames, Delay = replicate (length frames) (delay cfg), LoopCount = 0\<rparr>,
      loop_written = gif_loop_written env
                 \<lparr>Image_list = frames, Delay = replicate (length frames) (delay cfg), LoopCount = 0\<rparr>\<rparr>"
  by (simp add: finish_def make_delays_replicate Let_def case_prod_beta)

lemma finish_not_created:
  "os_Create env (destname cfg) = Some err \<Longrightarrow>
   finish env cfg fs frames lg =
     \<lparr>status = 1, logged = lg @ [CreateError (destname cfg) err], disk = files env,
      opened = fs, encoded = None, loop_written = None\<rparr>"
  by (simp add: finish_def)

lemma encoded_finishD:
  assumes "encoded (finish env cfg fs frames lg) = Some g"
  shows "os_Create env (destname cfg) = None
       \<and> g = \<lparr>Image_list = frames, Delay = replicate (length frames) (delay cfg), LoopCount = 0\<rparr>"
proof (cases "os_Create env (destname cfg)")
  case None
  with assms show ?thesis by (simp add: finish_created)
next
  case (Some err)
  with assms show ?thesis by (simp add: finish_not_created)
qed

lemma encoded_main1D:
  assumes "encoded (main1 env cfg) = Some g"
  shows "\<exists>fs frames lg. main1 env cfg = finish env cfg fs frames lg"
  using assms
  by (auto simp: main1_def fatal_exit_def split: if_splits sum.splits prod.splits)

lemma main1_run:
  assumes "rotate_flag cfg = 0 \<or> rotate_flag cfg = 90 \<or> rotate_flag cfg = 180 \<or> rotate_flag cfg = 270"
    and "flip cfg = ''none'' \<or> flip cfg = ''horizontal'' \<or> flip cfg = ''vertical''"
    and "filepath_Glob env (srcglob cfg) = Inr names"
    and "names \<noteq> []"
  shows "main1 env cfg =
           finish env cfg (sort names) [p. Inr p \<leftarrow> map (frame1 env cfg) (sort names)]
             [m. Inl m \<leftarrow> map (frame1 env cfg) (sort names)]"
  using assms by (simp add: main1_def loop1_collects)

lemma Bounds_imaging_Crop:
  "Bounds (imaging_Crop img rect) =
     (if Empty (Intersect rect (Bounds img)) then ZR
      else Rect 0 0 (Dx (Intersect rect (Bounds img))) (Dy (Intersect rect (Bounds img))))"
  by (simp add: imaging_Crop_def Let_def empty_Img_def)

lemma Intersect_idem: "Intersect (Intersect r s) s = Intersect r s"
  by (simp add: Intersect_def Empty_def ZR_def Let_def)

lemma imaging_Crop_clamped: "imaging_Crop img (Intersect rect (Bounds img)) = imaging_Crop img rect"
  by (simp add: imaging_Crop_def Intersect_idem)

lemma Intersect_extent:
  assumes "MinX s \<le> MaxX s" and "MinY s \<le> MaxY s"
  shows "0 \<le> Dx (Intersect r s) \<and> Dx (Intersect r s) \<le> Dx s
       \<and> 0 \<le> Dy (Intersect r s) \<and> Dy (Intersect r s) \<le> Dy s"
  using assms by (auto simp: Intersect_def Empty_def ZR_def Dx_def Dy_def Let_def)

lemma imaging_Crop_extent:
  assumes "MinX (Bounds img) \<le> MaxX (Bounds img)" and "MinY (Bounds img) \<le> MaxY (Bounds img)"
  shows "0 \<le> Dx (Bounds (imaging_Crop img rect)) \<and> Dx (Bounds (imaging_Crop img rect)) \<le> Dx (Bounds img)
       \<and> 0 \<le> Dy (Bounds (imaging_Crop img rect)) \<and> Dy (Bounds (imaging_Crop img rect)) \<le> Dy (Bounds img)"
proof (cases "Empty (Intersect rect (Bounds img))")
  case True
  with assms show ?thesis
    by (simp add: Bounds_imaging_Crop ZR_def Dx_def Dy_def)
next
  case False
  have "Dx (Rect 0 0 (Dx (Intersect rect (Bounds img))) (Dy (Intersect rect (Bounds img))))
          = Dx (Intersect rect (Bounds img))"
    and "Dy (Rect 0 0 (Dx (Intersect rect (Bounds img))) (Dy (Intersect rect (Bounds img))))
          = Dy (Intersect rect (Bounds img))"
    using Intersect_extent [OF assms, of rect] by (simp_all add: Rect_def Dx_def Dy_def)
  with False Intersect_extent [OF assms, of rect] show ?thesis
    by (simp add: Bounds_imaging_Crop)
qed

lemma frame1_skip_messages:
  assumes "frame1 env cfg filename = Inl m"
  shows "\<exists>err. m = SkipRead filename err \<or> m = SkipEncode filename err \<or> m = SkipDecode filename err"
  using assms by (auto simp: frame1_def quantize_def split: sum.splits)

lemma go_int_double: "go_int (of_int n * 2) = 2 * n"
proof -
  have "(of_int n * 2 :: rat) = of_int (2 * n)" by simp
  then show ?thesis
    unfolding go_int_def by (simp only: floor_of_int ceiling_of_int if_cancel)
qed

lemma go_int_numeral: "go_int (numeral k) = numeral k"
  by (simp add: go_int_def)

lemma wrap64_small: "- (2 ^ 63) \<le> n \<Longrightarrow> n < 2 ^ 63 \<Longrightarrow> wrap64 n = n"
  by (simp add: wrap64_def)







text \<open>
  The first copy stops on a bad flag or an empty glob result before it opens any file;
  the second copy does so on a bad flag.
\<close>

lemma main1_configuration_errors:
  assumes "\<not> (rotate_flag cfg = 0 \<or> rotate_flag cfg = 90 \<or> rotate_flag cfg = 180 \<or> rotate_flag cfg = 270)
         \<or> \<not> (flip cfg = ''none'' \<or> flip cfg = ''horizontal'' \<or> flip cfg = ''vertical'')
         \<or> filepath_Glob env (srcglob cfg) = Inr []"
  shows "status (main1 env cfg) = 1 \<and> opened (main1 env cfg) = []
       \<and> encoded (main1 env cfg) = None \<and> disk (main1 env cfg) = files env"
  using assms by (auto simp: main1_def fatal_exit_def split: sum.splits)

lemma main2_flag_errors:
  assumes "\<not> (rotate_flag cfg = 0 \<or> rotate_flag cfg = 90 \<or> rotate_flag cfg = 180 \<or> rotate_flag cfg = 270)
         \<or> \<not> (flip cfg = ''none'' \<or> flip cfg = ''horizontal'' \<or> flip cfg = ''vertical'')"
  shows "status (main2 env cfg) = 1 \<and> opened (main2 env cfg) = []
       \<and> encoded (main2 env cfg) = None \<and> disk (main2 env cfg) = files env"
  using assms by (auto simp: main2_def fatal_exit_def split: sum.splits)




text \<open>
  A crop rectangle inside the image, with width and height above one: the result is
  one column and one row short of the width and height asked for.
\<close>

lemma CropImage_extent:
  assumes "Bounds img = Rect 0 0 W H" and "0 \<le> l" and "0 \<le> t" and "1 < w" and "1 < h"
    and "l + w - 1 \<le> W" and "t + h - 1 \<le> H" and "W < 2 ^ 63" and "H < 2 ^ 63"
  shows "Bounds (CropImage l t w h img) = Rect 0 0 (w - 1) (h - 1)"
proof -
  have x: "wrap64 (l + w - 1) = l + w - 1" and y: "wrap64 (t + h - 1) = t + h - 1"
    using assms by (simp_all add: wrap64_small)
  have "Intersect (Rect l t (l + w - 1) (t + h - 1)) (Rect 0 0 W H) = Rect l t (l + w - 1) (t + h - 1)"
    using assms by (simp add: Rect_def Intersect_def Empty_def Let_def)
  moreover have "\<not> Empty (Rect l t (l + w - 1) (t + h - 1))"
    using assms by (simp add: Rect_def Empty_def)
  moreover have "Dx (Rect l t (l + w - 1) (t + h - 1)) = w - 1"
    and "Dy (Rect l t (l + w - 1) (t + h - 1)) = h - 1"
    using assms by (simp_all add: Rect_def Dx_def Dy_def)
  ultimately show ?thesis
    using assms(4,5) by (simp add: CropImage_def Bounds_imaging_Crop assms(1) x y)
qed

subsection \<open>The stand-ins, evaluated\<close>

lemma test_env_fields:
  "filepath_Glob (test_env names) = (\<lambda>pattern. Inr names)"
  "imaging_Open (test_env names) = test_Open"
  "imaging_Resize (test_env names) = test_Resize"
  "os_Create (test_env names) = (\<lambda>name. None)"
  "gif_writer (test_env names) = test_writer"
  "files (test_env names) = Map.empty"
  by (simp_all add: test_env_def)

lemma default_flags_fields:
  "srcglob default_flags = ''*.jpg''" "destname default_flags = ''movie.gif''"
  "cropleft default_flags = 0" "croptop default_flags = 0"
  "cropwidth default_flags = -1" "cropheight default_flags = -1"
  "delay default_flags = 3" "scale default_flags = 1"
  "rotate_flag default_flags = 0" "flip default_flags = ''none''"
  by (simp_all add: default_flags_def)

lemma test_quantize:
  "quantize (test_env names) filename img
     = Inr (test_frame (nat (Dx (Bounds img))) (nat (Dy (Bounds img))))"
  by (simp add: quantize_def test_env_def test_Encode_def test_Decode_def test_frame_def)

lemma plain_transform1:
  "scale cfg = 1 \<Longrightarrow> rotate_flag cfg = 0 \<Longrightarrow> flip cfg = ''none'' \<Longrightarrow>
   transform1 env cfg img = CropImage (cropleft cfg) (croptop cfg) (cropwidth cfg) (cropheight cfg) img"
  by (simp add: transform1_def ScaleImage_def RotateImage_def FlipImage_def)

lemma Bounds_solid: "Bounds (solid w h) = Rect 0 0 w h"
  by (simp add: solid_def)

lemma test_frame1_unknown:
  "filename \<noteq> ''a.jpg'' \<Longrightarrow> filename \<noteq> ''b.jpg'' \<Longrightarrow>
   frame1 (test_env names) cfg filename = Inl (SkipRead filename ''image: unknown format'')"
  by (simp add: frame1_def test_env_fields test_Open_def)

lemma test_frame1_known:
  "test_Open filename = Inr img \<Longrightarrow> scale cfg = 1 \<Longrightarrow> rotate_flag cfg = 0 \<Longrightarrow> flip cfg = ''none'' \<Longrightarrow>
   frame1 (test_env names) cfg filename =
     Inr (test_frame
            (nat (Dx (Bounds (CropImage (cropleft cfg) (croptop cfg) (cropwidth cfg) (cropheight cfg) img))))
            (nat (Dy (Bounds (CropImage (cropleft cfg) (croptop cfg) (cropwidth cfg) (cropheight cfg) img)))))"
  by (simp add: frame1_def test_env_fields test_quantize plain_transform1)

lemma test_EncodeAll_empty:
  "gif_EncodeAll env \<lparr>Image_list = [], Delay = ds, LoopCount = n\<rparr>
     = ([], Some ''gif: must provide at least one image'')"
  by (simp add: gif_EncodeAll_def)

lemma main1_x:
  "main1 (test_env [''x.jpg'']) default_flags =
     \<lparr>status = 0,
      logged = [SkipRead ''x.jpg'' ''image: unknown format'',
                EncodeAllError ''gif: must provide at least one image''],
      disk = [''movie.gif'' \<mapsto> []], opened = [''x.jpg''],
      encoded = Some \<lparr>Image_list = [], Delay = [], LoopCount = 0\<rparr>,
      loop_written = None\<rparr>"
proof -
  have f: "frame1 (test_env [''x.jpg'']) default_flags ''x.jpg''
             = Inl (SkipRead ''x.jpg'' ''image: unknown format'')"
    by (simp add: test_frame1_unknown)
  have "main1 (test_env [''x.jpg'']) default_flags =
          finish (test_env [''x.jpg'']) default_flags [''x.jpg''] []
            [SkipRead ''x.jpg'' ''image: unknown format'']"
    by (simp add: main1_def f test_env_fields default_flags_fields)
  also have "\<dots> = \<lparr>status = 0,
      logged = [SkipRead ''x.jpg'' ''image: unknown format'',
                EncodeAllError ''gif: must provide at least one image''],
      disk = [''movie.gif'' \<mapsto> []], opened = [''x.jpg''],
      encoded = Some \<lparr>Image_list = [], Delay = [], LoopCount = 0\<rparr>,
      loop_written = None\<rparr>"
    by (simp add: finish_created test_env_fields test_EncodeAll_empty default_flags_fields
          gif_loop_written_def)
  finally show ?thesis .
qed

lemma main2_none:
  "main2 (test_env []) default_flags =
     \<lparr>status = 0, logged = [EncodeAllError ''gif: must provide at least one image''],
      disk = [''movie.gif'' \<mapsto> []], opened = [],
      encoded = Some \<lparr>Image_list = [], Delay = [], LoopCount = 0\<rparr>,
      loop_written = None\<rparr>"
proof -
  have "main2 (test_env []) default_flags = finish (test_env []) default_flags [] [] []"
    by (simp add: main2_def test_env_fields default_flags_fields)
  also have "\<dots> = \<lparr>status = 0, logged = [EncodeAllError ''gif: must provide at least one image''],
      disk = [''movie.gif'' \<mapsto> []], opened = [],
      encoded = Some \<lparr>Image_list = [], Delay = [], LoopCount = 0\<rparr>,
      loop_written = None\<rparr>"
    by (simp add: finish_created test_env_fields test_EncodeAll_empty default_flags_fields
          gif_loop_written_def)
  finally show ?thesis .
qed

lemma test_frame1_b_crop:
  "frame1 (test_env [''b.jpg''])
        (default_flags\<lparr>cropleft := 2, croptop := 2, cropwidth := 5, cropheight := 5\<rparr>) ''b.jpg''
      = Inr (test_frame 2 2)"
  by (simp add: test_frame1_known [of _ "solid 4 4"] test_Open_def default_flags_fields
        CropImage_def Bounds_imaging_Crop Bounds_solid geom_defs)

lemma frame1_a_left1:
  "frame1 (test_env names) (default_flags\<lparr>cropleft := 1\<rparr>) ''a.jpg'' = Inr (test_frame 1 1)"
  by (simp add: test_frame1_known [of _ "solid 2 2"] test_Open_def default_flags_fields
        CropImage_def Bounds_imaging_Crop Bounds_solid geom_defs)

lemma frame1_b_left1:
  "frame1 (test_env names) (default_flags\<lparr>cropleft := 1\<rparr>) ''b.jpg'' = Inr (test_frame 3 3)"
  by (simp add: test_frame1_known [of _ "solid 4 4"] test_Open_def default_flags_fields
        CropImage_def Bounds_imaging_Crop Bounds_solid geom_defs)

lemma body2_a_left1:
  "body2 (test_env names) (default_flags\<lparr>cropleft := 1\<rparr>) ''a.jpg''
     = (default_flags\<lparr>cropleft := 1, cropwidth := 2, cropheight := 2\<rparr>, Inr (test_frame 1 1))"
  by (simp add: body2_def test_env_fields test_Open_def test_quantize default_flags_fields
        Bounds_imaging_Crop Bounds_solid geom_defs)

lemma body2_b_left1:
  "body2 (test_env names) (default_flags\<lparr>cropleft := 1, cropwidth := 2, cropheight := 2\<rparr>) ''b.jpg''
     = (default_flags\<lparr>cropleft := 1, cropwidth := 2, cropheight := 2\<rparr>, Inr (test_frame 1 1))"
  by (simp add: body2_def test_env_fields test_Open_def test_quantize default_flags_fields
        Bounds_imaging_Crop Bounds_solid geom_defs)

lemma main1_ab_left1:
  "encoded (main1 (test_env [''a.jpg'', ''b.jpg'']) (default_flags\<lparr>cropleft := 1\<rparr>))
     = Some \<lparr>Image_list = [test_frame 1 1, test_frame 3 3], Delay = [3, 3], LoopCount = 0\<rparr>"
proof -
  have "main1 (test_env [''a.jpg'', ''b.jpg'']) (default_flags\<lparr>cropleft := 1\<rparr>)
      = finish (test_env [''a.jpg'', ''b.jpg'']) (default_flags\<lparr>cropleft := 1\<rparr>) [''a.jpg'', ''b.jpg'']
          [test_frame 1 1, test_frame 3 3] []"
    by (simp add: main1_def test_env_fields default_flags_fields frame1_a_left1 frame1_b_left1)
  then show ?thesis
    by (simp add: finish_created test_env_fields default_flags_fields numeral_2_eq_2)
qed

lemma main2_ab_left1:
  "encoded (main2 (test_env [''a.jpg'', ''b.jpg'']) (default_flags\<lparr>cropleft := 1\<rparr>))
     = Some \<lparr>Image_list = [test_frame 1 1, test_frame 1 1], Delay = [3, 3], LoopCount = 0\<rparr>"
proof -
  have "main2 (test_env [''a.jpg'', ''b.jpg'']) (default_flags\<lparr>cropleft := 1\<rparr>)
      = finish (test_env [''a.jpg'', ''b.jpg''])
          (default_flags\<lparr>cropleft := 1, cropwidth := 2, cropheight := 2\<rparr>) [''a.jpg'', ''b.jpg'']
          [test_frame 1 1, test_frame 1 1] []"
    by (simp add: main2_def test_env_fields default_flags_fields body2_a_left1 body2_b_left1)
  then show ?thesis
    by (simp add: finish_created test_env_fields default_flags_fields numeral_2_eq_2)
qed







subsection \<open>When final assembly fails\<close>

text \<open>
  C1, as the code has it. When the first copy reaches \<^verbatim>\<open>gif.EncodeAll\<close> and the frame
  list is empty or serialization fails, the run still ends with status 0, the error is
  the last message logged, and the destination file, created before serialization,
  stays in place holding whatever was written (nothing when there were no frames).
\<close>

theorem failed_assembly_only_logged:
  assumes "encoded (main1 env cfg) = Some g"
    and "Image_list g = [] \<or> snd (gif_EncodeAll env g) \<noteq> None"
  shows "status (main1 env cfg) = 0
       \<and> disk (main1 env cfg) (destname cfg) = Some (fst (gif_EncodeAll env g))
       \<and> (\<exists>err. snd (gif_EncodeAll env g) = Some err
              \<and> last (logged (main1 env cfg)) = EncodeAllError err)
       \<and> (Image_list g = [] \<longrightarrow> fst (gif_EncodeAll env g) = [])"
proof -
  from encoded_main1D [OF assms(1)] obtain fs frames lg
    where run: "main1 env cfg = finish env cfg fs frames lg" by blast
  from assms(1) have created: "os_Create env (destname cfg) = None"
    and g: "g = \<lparr>Image_list = frames, Delay = replicate (length frames) (delay cfg), LoopCount = 0\<rparr>"
    unfolding run by (simp_all add: encoded_finishD)
  from assms(2) obtain err where err: "snd (gif_EncodeAll env g) = Some err"
    by (auto simp: gif_EncodeAll_def)
  have "Image_list g = [] \<longrightarrow> fst (gif_EncodeAll env g) = []"
    by (simp add: gif_EncodeAll_def)
  with err show ?thesis
    unfolding run finish_created [OF created] g [symmetric] by simp
qed

theorem failed_assembly_only_logged_witness:
  "encoded (main1 (test_env [''x.jpg'']) default_flags)
      = Some \<lparr>Image_list = [], Delay = [], LoopCount = 0\<rparr>
   \<and> status (main1 (test_env [''x.jpg'']) default_flags) = 0
   \<and> disk (main1 (test_env [''x.jpg'']) default_flags) ''movie.gif'' = Some []"
proof -
  let ?g = "\<lparr>Image_list = [], Delay = [], LoopCount = 0\<rparr>"
  have e: "encoded (main1 (test_env [''x.jpg'']) default_flags) = Some ?g"
    by (simp add: main1_x)
  have f: "Image_list ?g = [] \<or> snd (gif_EncodeAll (test_env [''x.jpg'']) ?g) \<noteq> None"
    by simp
  have w: "fst (gif_EncodeAll (test_env [''x.jpg'']) ?g) = []"
    by (simp add: gif_EncodeAll_def)
  have d: "destname default_flags = ''movie.gif''"
    by (simp add: default_flags_def)
  from failed_assembly_only_logged [OF e f] e show ?thesis
    unfolding w d by simp
qed

text \<open>
  C1 as stated fails. The only source cannot be decoded, so no frame survives and
  \<^verbatim>\<open>gif.EncodeAll\<close> refuses the empty animation; the run ends with status 0 and leaves an
  empty \<^verbatim>\<open>movie.gif\<close> where there was no file before.
\<close>

theorem failed_assembly_counterexample:
  "files (test_env [''x.jpg'']) ''movie.gif'' = None
   \<and> encoded (main1 (test_env [''x.jpg'']) default_flags)
        = Some \<lparr>Image_list = [], Delay = [], LoopCount = 0\<rparr>
   \<and> logged (main1 (test_env [''x.jpg'']) default_flags)
        = [SkipRead ''x.jpg'' ''image: unknown format'',
           EncodeAllError ''gif: must provide at least one image'']
   \<and> status (main1 (test_env [''x.jpg'']) default_flags) = 0
   \<and> disk (main1 (test_env [''x.jpg'']) default_flags) ''movie.gif'' = Some []"
  by (simp add: main1_x test_env_fields)

subsection \<open>The frames of the animation\<close>

text \<open>
  C2. For valid flags, a destination that can be created and a glob that matches N
  files of which k are skipped, the first copy hands \<^verbatim>\<open>gif.EncodeAll\<close> an animation
  with exactly the N - k frames of the files that were not skipped, in the sorted order
  of their names, and a delay list of the same length whose entries all equal the
  delay flag. Every skipped file leaves its warning in the log, and the run ends with
  status 0. A file is skipped when \<^verbatim>\<open>imaging.Open\<close>, \<^verbatim>\<open>gif.Encode\<close> or \<^verbatim>\<open>gif.Decode\<close>
  fails for it (\<open>frame1\<close> is \<open>Inl\<close>).
\<close>

theorem surviving_frames_in_order:
  assumes "rotate_flag cfg = 0 \<or> rotate_flag cfg = 90 \<or> rotate_flag cfg = 180 \<or> rotate_flag cfg = 270"
    and "flip cfg = ''none'' \<or> flip cfg = ''horizontal'' \<or> flip cfg = ''vertical''"
    and "filepath_Glob env (srcglob cfg) = Inr names"
    and "names \<noteq> []"
    and "os_Create env (destname cfg) = None"
  shows "\<exists>g. encoded (main1 env cfg) = Some g
      \<and> Image_list g = [p. Inr p \<leftarrow> map (frame1 env cfg) (sort names)]
      \<and> length (Image_list g) = length names - length [m. Inl m \<leftarrow> map (frame1 env cfg) (sort names)]
      \<and> Delay g = replicate (length (Image_list g)) (delay cfg)
      \<and> status (main1 env cfg) = 0
      \<and> logged (main1 env cfg) = [m. Inl m \<leftarrow> map (frame1 env cfg) (sort names)]
           @ (case snd (gif_EncodeAll env g) of None \<Rightarrow> [] | Some err \<Rightarrow> [EncodeAllError err])"
proof -
  let ?rs = "map (frame1 env cfg) (sort names)"
  let ?frames = "[p. Inr p \<leftarrow> ?rs]"
  let ?g = "\<lparr>Image_list = ?frames, Delay = replicate (length ?frames) (delay cfg), LoopCount = 0\<rparr>"
  have run: "main1 env cfg = finish env cfg (sort names) ?frames [m. Inl m \<leftarrow> ?rs]"
    using assms(1-4) by (simp add: main1_def loop1_collects)
  have count: "length ?frames = length names - length [m. Inl m \<leftarrow> ?rs]"
    using survivors_and_skips [of ?rs] by simp
  have fin: "finish env cfg (sort names) ?frames [m. Inl m \<leftarrow> ?rs] =
      \<lparr>status = 0,
       logged = [m. Inl m \<leftarrow> ?rs] @ (case snd (gif_EncodeAll env ?g) of None \<Rightarrow> [] | Some err \<Rightarrow> [EncodeAllError err]),
       disk = (files env)(destname cfg \<mapsto> fst (gif_EncodeAll env ?g)),
       opened = sort names, encoded = Some ?g, loop_written = gif_loop_written env ?g\<rparr>"
    using assms(5) by (simp add: finish_def make_delays_replicate Let_def case_prod_beta)
  show ?thesis
    unfolding run fin using count by simp
qed

theorem surviving_frames_in_order_witness:
  "\<exists>g. encoded (main1 (test_env [''b.jpg'', ''x.jpg'', ''a.jpg'']) (default_flags\<lparr>delay := 5\<rparr>)) = Some g
      \<and> Image_list g = [test_frame 2 2, test_frame 4 4]
      \<and> length (Image_list g) = 3 - 1
      \<and> Delay g = [5, 5]
      \<and> status (main1 (test_env [''b.jpg'', ''x.jpg'', ''a.jpg'']) (default_flags\<lparr>delay := 5\<rparr>)) = 0
      \<and> logged (main1 (test_env [''b.jpg'', ''x.jpg'', ''a.jpg'']) (default_flags\<lparr>delay := 5\<rparr>))
          = [SkipRead ''x.jpg'' ''image: unknown format'']"
proof -
  have rs: "map (frame1 (test_env [''b.jpg'', ''x.jpg'', ''a.jpg'']) (default_flags\<lparr>delay := 5\<rparr>))
              (sort [''b.jpg'', ''x.jpg'', ''a.jpg''])
            = [Inr (test_frame 2 2), Inr (test_frame 4 4), Inl (SkipRead ''x.jpg'' ''image: unknown format'')]"
    by (simp add: run_defs test_defs)
  let ?E = "test_env [''b.jpg'', ''x.jpg'', ''a.jpg'']"
  let ?C = "default_flags\<lparr>delay := 5\<rparr>"
  have h1: "rotate_flag ?C = 0 \<or> rotate_flag ?C = 90 \<or> rotate_flag ?C = 180 \<or> rotate_flag ?C = 270"
    by (simp add: default_flags_def)
  have h2: "flip ?C = ''none'' \<or> flip ?C = ''horizontal'' \<or> flip ?C = ''vertical''"
    by (simp add: default_flags_def)
  have h3: "filepath_Glob ?E (srcglob ?C) = Inr [''b.jpg'', ''x.jpg'', ''a.jpg'']"
    by (simp add: test_env_def)
  have h4: "[''b.jpg'', ''x.jpg'', ''a.jpg''] \<noteq> []"
    by simp
  have h5: "os_Create ?E (destname ?C) = None"
    by (simp add: test_env_def)
  have d5: "delay ?C = 5"
    by (simp add: default_flags_def)
  from surviving_frames_in_order [OF h1 h2 h3 h4 h5]
  obtain g where g: "encoded (main1 ?E ?C) = Some g"
      "Image_list g = [test_frame 2 2, test_frame 4 4]"
      "Delay g = replicate (length (Image_list g)) 5"
      "status (main1 ?E ?C) = 0"
      "logged (main1 ?E ?C) = [SkipRead ''x.jpg'' ''image: unknown format'']
           @ (case snd (gif_EncodeAll ?E g) of None \<Rightarrow> [] | Some err \<Rightarrow> [EncodeAllError err])"
    unfolding rs d5 by auto
  have d: "Delay g = [5, 5]"
    using g(2,3) by (simp add: numeral_2_eq_2)
  have "snd (gif_EncodeAll ?E g) = None"
    using g(2) d by (simp add: gif_EncodeAll_def test_env_def test_writer_def)
  with g d show ?thesis by simp
qed

subsection \<open>The size of a crop\<close>

text \<open>
  C3, at two inputs. \<^verbatim>\<open>CropImage\<close> passes \<open>left + width - 1\<close> and \<open>top + height - 1\<close> as the
  maximum corner of an \<^verbatim>\<open>image.Rect\<close>, which excludes its maximum corner. On a 4 by 4
  image, a crop of width 2 and height 2 at (1, 1) returns a 1 by 1 image, and a crop at
  (0, 0) of full width (-1) and height 2 returns a 3 by 1 image.
\<close>

theorem crop_is_one_short:
  "Bounds (CropImage 1 1 2 2 (solid 4 4)) = Rect 0 0 1 1
   \<and> Bounds (CropImage 0 0 (-1) 2 (solid 4 4)) = Rect 0 0 3 1"
  by (simp add: CropImage_def Bounds_imaging_Crop Bounds_solid geom_defs)

subsection \<open>Geometry has no failure\<close>

text \<open>
  C4, as the code has it. Cropping never fails and never returns more than the source
  holds: for an image with well-formed bounds the cropped image is at most as wide and
  as high as the source, and cropping by the requested rectangle is cropping by that
  rectangle cut down to the image bounds. A file whose image was decoded is skipped
  only by the GIF round trip, and the only warnings a skipped file can produce are
  those of \<^verbatim>\<open>imaging.Open\<close>, \<^verbatim>\<open>gif.Encode\<close> and \<^verbatim>\<open>gif.Decode\<close>.
\<close>

theorem geometry_never_fails:
  assumes "MinX (Bounds img) \<le> MaxX (Bounds img)" and "MinY (Bounds img) \<le> MaxY (Bounds img)"
  shows "0 \<le> Dx (Bounds (CropImage l t w h img))
       \<and> Dx (Bounds (CropImage l t w h img)) \<le> Dx (Bounds img)
       \<and> 0 \<le> Dy (Bounds (CropImage l t w h img))
       \<and> Dy (Bounds (CropImage l t w h img)) \<le> Dy (Bounds img)
       \<and> (\<not> (w = -1 \<and> h = -1 \<and> l = 0 \<and> t = 0) \<longrightarrow>
            CropImage l t w h img =
              imaging_Crop img
                (Intersect
                   (Rect l t (wrap64 (l + (if w = -1 then Dx (Bounds img) else w) - 1))
                      (wrap64 (t + (if h = -1 then Dy (Bounds img) else h) - 1)))
                   (Bounds img)))
       \<and> (imaging_Open env filename = Inr img \<longrightarrow>
            frame1 env cfg filename = quantize env filename (transform1 env cfg img))
       \<and> (\<forall>m. frame1 env cfg filename = Inl m \<longrightarrow>
            (\<exists>err. m = SkipRead filename err \<or> m = SkipEncode filename err
                 \<or> m = SkipDecode filename err))"
proof -
  have ext: "0 \<le> Dx (Bounds (CropImage l t w h img))
       \<and> Dx (Bounds (CropImage l t w h img)) \<le> Dx (Bounds img)
       \<and> 0 \<le> Dy (Bounds (CropImage l t w h img))
       \<and> Dy (Bounds (CropImage l t w h img)) \<le> Dy (Bounds img)"
  proof (cases "w = -1 \<and> h = -1 \<and> l = 0 \<and> t = 0")
    case True
    with assms show ?thesis by (simp add: CropImage_def Dx_def Dy_def)
  next
    case False
    then show ?thesis
      using imaging_Crop_extent [OF assms] by (simp add: CropImage_def Let_def)
  qed
  have clamp: "\<not> (w = -1 \<and> h = -1 \<and> l = 0 \<and> t = 0) \<longrightarrow>
            CropImage l t w h img =
              imaging_Crop img
                (Intersect
                   (Rect l t (wrap64 (l + (if w = -1 then Dx (Bounds img) else w) - 1))
                      (wrap64 (t + (if h = -1 then Dy (Bounds img) else h) - 1)))
                   (Bounds img))"
    by (simp add: CropImage_def Let_def imaging_Crop_clamped)
  have opened: "imaging_Open env filename = Inr img \<longrightarrow>
            frame1 env cfg filename = quantize env filename (transform1 env cfg img)"
    by (simp add: frame1_def)
  from ext clamp opened frame1_skip_messages [of env cfg filename] show ?thesis
    by blast
qed

theorem geometry_never_fails_witness:
  "Dx (Bounds (CropImage 2 2 5 5 (solid 4 4))) \<le> 4
   \<and> Dy (Bounds (CropImage 2 2 5 5 (solid 4 4))) \<le> 4
   \<and> CropImage 2 2 5 5 (solid 4 4) = imaging_Crop (solid 4 4) (Rect 2 2 4 4)
   \<and> frame1 (test_env [''b.jpg'']) default_flags ''b.jpg''
       = quantize (test_env [''b.jpg'']) ''b.jpg'' (transform1 (test_env [''b.jpg'']) default_flags (solid 4 4))"
proof -
  have wf: "MinX (Bounds (solid 4 4)) \<le> MaxX (Bounds (solid 4 4))"
      "MinY (Bounds (solid 4 4)) \<le> MaxY (Bounds (solid 4 4))"
    by (simp_all add: Bounds_solid Rect_def)
  have d: "Dx (Bounds (solid 4 4)) = 4" "Dy (Bounds (solid 4 4)) = 4"
    by (simp_all add: Bounds_solid Rect_def Dx_def Dy_def)
  have r: "Intersect (Rect 2 2 (wrap64 6) (wrap64 6)) (Bounds (solid 4 4)) = Rect 2 2 4 4"
    by (simp add: Bounds_solid geom_defs)
  have op: "imaging_Open (test_env [''b.jpg'']) ''b.jpg'' = Inr (solid 4 4)"
    by (simp add: test_env_fields test_Open_def)
  note T = geometry_never_fails [OF wf, of 2 2 5 5 "test_env [''b.jpg'']" "''b.jpg''" default_flags]
  have a: "Dx (Bounds (CropImage 2 2 5 5 (solid 4 4))) \<le> 4"
    and b: "Dy (Bounds (CropImage 2 2 5 5 (solid 4 4))) \<le> 4"
    using T unfolding d by blast+
  have c: "CropImage 2 2 5 5 (solid 4 4) = imaging_Crop (solid 4 4) (Rect 2 2 4 4)"
    using T by (simp add: r)
  have e: "frame1 (test_env [''b.jpg'']) default_flags ''b.jpg''
       = quantize (test_env [''b.jpg'']) ''b.jpg'' (transform1 (test_env [''b.jpg'']) default_flags (solid 4 4))"
    using T op by blast
  from a b c e show ?thesis by blast
qed

text \<open>
  C4 as stated fails. On the 4 by 4 image the crop rectangle from (2, 2) to (6, 6)
  reaches outside the bounds; the crop returns the 2 by 2 part inside them and the
  frame is kept.
\<close>

theorem out_of_bounds_crop_counterexample:
  "Bounds (solid 4 4) = Rect 0 0 4 4
   \<and> Rect 2 2 (wrap64 (2 + 5 - 1)) (wrap64 (2 + 5 - 1)) = Rect 2 2 6 6
   \<and> Bounds (CropImage 2 2 5 5 (solid 4 4)) = Rect 0 0 2 2
   \<and> frame1 (test_env [''b.jpg''])
        (default_flags\<lparr>cropleft := 2, croptop := 2, cropwidth := 5, cropheight := 5\<rparr>) ''b.jpg''
      = Inr (test_frame 2 2)"
  unfolding test_frame1_b_crop
  by (simp add: CropImage_def Bounds_imaging_Crop Bounds_solid geom_defs)

subsection \<open>The order of the four operations\<close>

text \<open>
  C5. Every frame of the first copy is the decoded image cropped, then scaled, then
  rotated, then flipped. The crop reads the source image's own coordinates: the pixel
  (x, y) of the crop at (10, 10) is the source pixel (10 + x, 10 + y). When the resampler
  returns images of the size it is asked for, cropping (10, 10, 50, 50) and then scaling
  by 2 differs from scaling by 2 and then cropping the same rectangle, on every image
  at least 59 wide and high.
\<close>

theorem crop_before_scale:
  assumes "\<forall>i w h. 0 < w \<and> 0 < h \<and> \<not> Empty (Bounds i)
              \<longrightarrow> Bounds (imaging_Resize env i w h) = Rect 0 0 w h"
    and "Bounds img = Rect 0 0 W H" and "59 \<le> W" and "59 \<le> H"
  shows "frame1 env cfg filename =
           (case imaging_Open env filename of
              Inl err \<Rightarrow> Inl (SkipRead filename err)
            | Inr src \<Rightarrow>
                quantize env filename
                  (FlipImage env (flip cfg)
                     (RotateImage env (rotate_flag cfg)
                        (ScaleImage env (scale cfg)
                           (CropImage (cropleft cfg) (croptop cfg) (cropwidth cfg)
                              (cropheight cfg) src)))))
       \<and> (\<forall>x y. 0 \<le> x \<and> x < 49 \<and> 0 \<le> y \<and> y < 49 \<longrightarrow>
             At (CropImage 10 10 50 50 img) x y = At img (10 + x) (10 + y))
       \<and> ScaleImage env 2 (CropImage 10 10 50 50 img)
           \<noteq> CropImage 10 10 50 50 (ScaleImage env 2 img)"
proof -
  have order: "frame1 env cfg filename =
           (case imaging_Open env filename of
              Inl err \<Rightarrow> Inl (SkipRead filename err)
            | Inr src \<Rightarrow>
                quantize env filename
                  (FlipImage env (flip cfg)
                     (RotateImage env (rotate_flag cfg)
                        (ScaleImage env (scale cfg)
                           (CropImage (cropleft cfg) (croptop cfg) (cropwidth cfg)
                              (cropheight cfg) src)))))"
    by (simp add: frame1_def transform1_def Let_def split: sum.splits)
  have c0: "\<And>i. CropImage 10 10 50 50 i = imaging_Crop i (Rect 10 10 59 59)"
    by (simp add: CropImage_def wrap64_def)
  have r: "Intersect (Rect 10 10 59 59) (Bounds img) = Rect 10 10 59 59"
    unfolding assms(2) using assms(3,4) by (simp add: geom_defs)
  have crop: "CropImage 10 10 50 50 img
      = \<lparr>Bounds = Rect 0 0 49 49,
         At = (\<lambda>x y. if 0 \<le> x \<and> x < 49 \<and> 0 \<le> y \<and> y < 49 then At img (10 + x) (10 + y) else 0)\<rparr>"
    unfolding c0 imaging_Crop_def r
    by (simp add: Let_def Rect_def Dx_def Dy_def Empty_def cong: if_cong)
  have source: "\<forall>x y. 0 \<le> x \<and> x < 49 \<and> 0 \<le> y \<and> y < 49 \<longrightarrow>
             At (CropImage 10 10 50 50 img) x y = At img (10 + x) (10 + y)"
    unfolding crop by simp
  have b1: "Bounds (ScaleImage env 2 (CropImage 10 10 50 50 img)) = Rect 0 0 98 98"
  proof -
    have "\<not> Empty (Bounds (CropImage 10 10 50 50 img))"
      unfolding crop by (simp add: Rect_def Empty_def)
    moreover have "Dx (Bounds (CropImage 10 10 50 50 img)) = 49"
      and "Dy (Bounds (CropImage 10 10 50 50 img)) = 49"
      unfolding crop by (simp_all add: Rect_def Dx_def Dy_def)
    ultimately show ?thesis
      using assms(1) by (simp add: ScaleImage_def Let_def go_int_numeral)
  qed
  have b2: "Bounds (CropImage 10 10 50 50 (ScaleImage env 2 img)) = Rect 0 0 49 49"
  proof -
    have ne: "\<not> Empty (Bounds img)"
      unfolding assms(2) using assms(3,4) by (simp add: Rect_def Empty_def)
    have d: "Dx (Bounds img) = W" "Dy (Bounds img) = H"
      unfolding assms(2) using assms(3,4) by (simp_all add: Rect_def Dx_def Dy_def)
    have "Bounds (ScaleImage env 2 img) = Rect 0 0 (2 * W) (2 * H)"
      using assms(1,3,4) ne d by (simp add: ScaleImage_def Let_def go_int_double)
    moreover have "Intersect (Rect 10 10 59 59) (Rect 0 0 (2 * W) (2 * H)) = Rect 10 10 59 59"
      using assms(3,4) by (simp add: geom_defs)
    ultimately show ?thesis
      unfolding c0 by (simp add: Bounds_imaging_Crop) (simp add: Rect_def Dx_def Dy_def Empty_def)
  qed
  have "Rect 0 0 98 98 \<noteq> Rect 0 0 49 49"
    by (simp add: Rect_def)
  with b1 b2 have "ScaleImage env 2 (CropImage 10 10 50 50 img)
           \<noteq> CropImage 10 10 50 50 (ScaleImage env 2 img)"
    by auto
  with order source show ?thesis by blast
qed

theorem crop_before_scale_witness:
  "ScaleImage (test_env []) 2 (CropImage 10 10 50 50 (solid 100 100))
     \<noteq> CropImage 10 10 50 50 (ScaleImage (test_env []) 2 (solid 100 100))
   \<and> At (CropImage 10 10 50 50 (solid 100 100)) 0 0 = At (solid 100 100) 10 10"
proof -
  have contract: "\<forall>i w h. 0 < w \<and> 0 < h \<and> \<not> Empty (Bounds i)
              \<longrightarrow> Bounds (imaging_Resize (test_env []) i w h) = Rect 0 0 w h"
    by (simp add: test_env_fields test_Resize_def)
  have b: "Bounds (solid 100 100) = Rect 0 0 100 100"
    by (rule Bounds_solid)
  from crop_before_scale [OF contract b, of default_flags "''a.jpg''"]
  show ?thesis by simp
qed

subsection \<open>No sources\<close>

text \<open>
  C6, at the input where the second copy departs from it. The second copy has no check
  for an empty glob result: with no file matched it opens nothing, creates the
  destination file, logs the refusal of \<^verbatim>\<open>gif.EncodeAll\<close> and ends with status 0. (The
  first copy stops with status 1, see \<open>main1_configuration_errors\<close>.)
\<close>

theorem no_sources_second_copy:
  "filepath_Glob (test_env []) (srcglob default_flags) = Inr []
   \<and> status (main2 (test_env []) default_flags) = 0
   \<and> opened (main2 (test_env []) default_flags) = []
   \<and> disk (main2 (test_env []) default_flags) ''movie.gif'' = Some []
   \<and> logged (main2 (test_env []) default_flags)
        = [EncodeAllError ''gif: must provide at least one image'']"
  by (simp add: main2_none test_env_fields)

subsection \<open>The two copies\<close>

text \<open>
  C7, at two inputs where the copies differ. With left 1 and the width and height left
  at -1, on a 2 by 2 image followed by a 4 by 4 image, the first copy's second frame
  is 3 by 3 and the second copy's is 1 by 1. With no file matched, the first copy ends
  with status 1 and no destination file, the second with status 0 and an empty one.
\<close>

theorem copies_differ:
  "encoded (main1 (test_env [''a.jpg'', ''b.jpg'']) (default_flags\<lparr>cropleft := 1\<rparr>))
      = Some \<lparr>Image_list = [test_frame 1 1, test_frame 3 3], Delay = [3, 3], LoopCount = 0\<rparr>
   \<and> encoded (main2 (test_env [''a.jpg'', ''b.jpg'']) (default_flags\<lparr>cropleft := 1\<rparr>))
      = Some \<lparr>Image_list = [test_frame 1 1, test_frame 1 1], Delay = [3, 3], LoopCount = 0\<rparr>
   \<and> status (main1 (test_env []) default_flags) = 1
   \<and> disk (main1 (test_env []) default_flags) ''movie.gif'' = None
   \<and> status (main2 (test_env []) default_flags) = 0
   \<and> disk (main2 (test_env []) default_flags) ''movie.gif'' = Some []"
  using main1_configuration_errors [of default_flags "test_env []"]
  by (simp add: main1_ab_left1 main2_ab_left1 main2_none test_env_fields)

subsection \<open>The flags across iterations\<close>

text \<open>
  C8, at the input where the second copy departs from it. With left 1 and width and
  height -1, the loop body of the second copy stores the first image's width and
  height, 2 and 2, into the flags; the next image, 4 by 4, is then cropped with width 2
  and height 2 and gives a 1 by 1 frame, where the first copy, whose \<^verbatim>\<open>CropImage\<close>
  works on copies of the flags, gives a 3 by 3 frame.
\<close>

theorem second_copy_overwrites_crop_flags:
  "cropwidth (default_flags\<lparr>cropleft := 1\<rparr>) = -1
   \<and> cropheight (default_flags\<lparr>cropleft := 1\<rparr>) = -1
   \<and> fst (body2 (test_env []) (default_flags\<lparr>cropleft := 1\<rparr>) ''a.jpg'')
       = default_flags\<lparr>cropleft := 1, cropwidth := 2, cropheight := 2\<rparr>
   \<and> snd (body2 (test_env []) (fst (body2 (test_env []) (default_flags\<lparr>cropleft := 1\<rparr>) ''a.jpg'')) ''b.jpg'')
       = Inr (test_frame 1 1)
   \<and> frame1 (test_env []) (default_flags\<lparr>cropleft := 1\<rparr>) ''b.jpg'' = Inr (test_frame 3 3)"
  by (simp add: body2_a_left1 body2_b_left1 frame1_b_left1 default_flags_fields)

subsection \<open>The documented no-op values\<close>

text \<open>
  C9. Crop with left 0, top 0, width -1 and height -1 returns its input, and Scale with
  factor 1 returns its input: the very same image, so pixel for pixel.
\<close>

theorem noop_values_are_identities:
  "CropImage 0 0 (-1) (-1) img = img \<and> ScaleImage env 1 img = img"
  by (simp add: CropImage_def ScaleImage_def)

subsection \<open>The loop count\<close>




end
